theory Spec2Isabelle
  imports Main
begin

section \<open>JavaScript values\<close>

text \<open>
  Both generators work on what \<^verbatim>\<open>JSON.parse\<close> returns, typed \<^verbatim>\<open>any\<close> in the source.
  \<open>JUndefined\<close> is what reading a missing property gives, and what
  \<^verbatim>\<open>generateTypeFromValue\<close> tests for; functions, symbols and bigints cannot come out of
  \<^verbatim>\<open>JSON.parse\<close> and have no constructor.

  A number is kept as the decimal text that ECMAScript's \<^verbatim>\<open>Number::toString\<close> prints for
  it: the generators only ask a number for its \<^verbatim>\<open>typeof\<close>, its truthiness and its text
  in a template literal, and that text determines all three.

  An object is the list of its own properties in the order \<^verbatim>\<open>Object.entries\<close> enumerates
  them, with distinct keys. For the keys of a JSON document that are not array indices this is
  the order in which the document lists them.
\<close>

datatype JsValue =
    JNull
  | JUndefined
  | JBool bool
  | JNumber string
  | JString string
  | JArray "JsValue list"
  | JObject "(string \<times> JsValue) list"

datatype error = TypeError

fun typeof :: "JsValue \<Rightarrow> string" where
  "typeof JUndefined = ''undefined''"
| "typeof JNull = ''object''"
| "typeof (JBool b) = ''boolean''"
| "typeof (JNumber n) = ''number''"
| "typeof (JString s) = ''string''"
| "typeof (JArray xs) = ''object''"
| "typeof (JObject es) = ''object''"

fun isArray :: "JsValue \<Rightarrow> bool" where
  "isArray (JArray xs) = True"
| "isArray _ = False"

text \<open>\<^verbatim>\<open>Array.prototype.join\<close> on an array of strings.\<close>

fun join :: "string \<Rightarrow> string list \<Rightarrow> string" where
  "join sep [] = []"
| "join sep [x] = x"
| "join sep (x # y # ys) = x @ sep @ join sep (y # ys)"

text \<open>The decimal text of an array index.\<close>

fun natToString :: "nat \<Rightarrow> string" where
  "natToString n =
     (if n < 10 then [''0123456789'' ! n]
      else natToString (n div 10) @ [''0123456789'' ! (n mod 10)])"

declare natToString.simps [simp del]

text \<open>
  The own enumerable string-keyed properties of a value that is neither \<^verbatim>\<open>null\<close> nor
  \<^verbatim>\<open>undefined\<close>: the properties of an object, the indexed elements of an array, the
  indexed characters of a string, none for a boolean or a number.
\<close>

fun ownEntries :: "JsValue \<Rightarrow> (string \<times> JsValue) list" where
  "ownEntries (JObject es) = es"
| "ownEntries (JArray xs) = zip (map natToString [0..<length xs]) xs"
| "ownEntries (JString s) =
     zip (map natToString [0..<length s]) (map (\<lambda>c. JString [c]) s)"
| "ownEntries _ = []"

text \<open>\<^verbatim>\<open>Object.entries\<close>, which throws on \<^verbatim>\<open>null\<close> and \<^verbatim>\<open>undefined\<close>.\<close>

definition Object_entries :: "JsValue \<Rightarrow> error + (string \<times> JsValue) list" where
  "Object_entries v =
     (if v = JNull \<or> v = JUndefined then Inl TypeError else Inr (ownEntries v))"

section \<open>Regular expressions of the shape used for property names\<close>

text \<open>
  A pattern anchored at both ends (\<^verbatim>\<open>^\<close> \<open>\<dots>\<close> \<^verbatim>\<open>$\<close>, no flags) that is a sequence of
  character classes, each taken once or starred. \<open>regexTest\<close> is
  \<^verbatim>\<open>RegExp.prototype.test\<close> for such a pattern, by backtracking.
\<close>

datatype regexItem = Once "char list" | Star "char list"

fun regexTest :: "regexItem list \<Rightarrow> string \<Rightarrow> bool" where
  "regexTest [] s = (s = [])"
| "regexTest (Once cls # items) [] = False"
| "regexTest (Once cls # items) (c # cs) = (c \<in> set cls \<and> regexTest items cs)"
| "regexTest (Star cls # items) [] = regexTest items []"
| "regexTest (Star cls # items) (c # cs) =
     ((c \<in> set cls \<and> regexTest (Star cls # items) cs) \<or> regexTest items (c # cs))"

definition lowerCase :: "char list" where
  "lowerCase = ''abcdefghijklmnopqrstuvwxyz''"

definition upperCase :: "char list" where
  "upperCase = ''ABCDEFGHIJKLMNOPQRSTUVWXYZ''"

definition digits :: "char list" where
  "digits = ''0123456789''"

text \<open>\<^verbatim>\<open>/^[a-zA-Z_$][a-zA-Z0-9_$]*$/\<close>\<close>

definition identifierPattern :: "regexItem list" where
  "identifierPattern =
     [Once (lowerCase @ upperCase @ ''_$''), Star (lowerCase @ upperCase @ digits @ ''_$'')]"

section \<open>Type inference: \<^verbatim>\<open>generateTypeFromValue\<close>\<close>

text \<open>
  \<^verbatim>\<open>pascalCase\<close> comes from the package \<^verbatim>\<open>change-case\<close>, which is not part of the
  repository: the functions that call it take it as the parameter \<open>pc\<close>.

  One equation per branch of the source: the two tests before the \<^verbatim>\<open>switch\<close>, then the
  cases of \<^verbatim>\<open>typeof value\<close>, with \<^verbatim>\<open>'object'\<close> split by \<^verbatim>\<open>Array.isArray\<close> and by
  \<^verbatim>\<open>value.length === 0\<close>. The \<^verbatim>\<open>default\<close> case answers \<^verbatim>\<open>'any'\<close> for the other results
  of \<^verbatim>\<open>typeof\<close>, which no \<open>JsValue\<close> has.
\<close>

fun generateTypeFromValue :: "(string \<Rightarrow> string) \<Rightarrow> JsValue \<Rightarrow> string \<Rightarrow> nat \<Rightarrow> string" where
  "generateTypeFromValue pc JNull name depth = ''null''"
| "generateTypeFromValue pc JUndefined name depth = ''undefined''"
| "generateTypeFromValue pc (JBool b) name depth = ''boolean''"
| "generateTypeFromValue pc (JNumber n) name depth = ''number''"
| "generateTypeFromValue pc (JString s) name depth = ''string''"
| "generateTypeFromValue pc (JArray []) name depth = ''any[]''"
| "generateTypeFromValue pc (JArray (x # xs)) name depth =
     generateTypeFromValue pc x (name @ ''Element'') (depth + 1) @ ''[]''"
| "generateTypeFromValue pc (JObject es) name depth =
     ''{\<newline>'' @
     join ''\<newline>''
       (map (\<lambda>(key, val).
          let propName = (if regexTest identifierPattern key then key else ''\"'' @ key @ ''\"'');
              propType = generateTypeFromValue pc val (pc key) (depth + 1)
          in ''  '' @ propName @ '': '' @ propType @ '';'') es) @
     ''\<newline>}''"


text \<open>Every entry of a value sits inside it; for an array or an object, strictly.\<close>

lemma size_zip_snd: "(k, v) \<in> set (zip ks xs) \<Longrightarrow> size (v::JsValue) < Suc (size_list size xs)"
proof -
  assume "(k, v) \<in> set (zip ks xs)"
  then have "v \<in> set xs" by (rule set_zip_rightD)
  then have "size v \<le> size_list size xs" by (rule size_list_estimation') simp
  then show ?thesis by simp
qed

lemma size_entry: "(k, v) \<in> set es \<Longrightarrow> size (v::JsValue) < Suc (size_list (size_prod (\<lambda>_. 0) size) es)"
proof (induction es)
  case Nil
  then show ?case by simp
next
  case (Cons e es)
  then show ?case by (cases e) auto
qed

lemma ownEntries_size:
  "(k, v) \<in> set (ownEntries obj) \<Longrightarrow> typeof obj = ''object'' \<Longrightarrow> size v < size obj"
  by (cases obj) (auto dest: size_zip_snd size_entry)

lemma ownEntries_size_le: "(k, v) \<in> set (ownEntries obj) \<Longrightarrow> size v \<le> size obj"
proof (cases obj)
  case (JString s)
  assume "(k, v) \<in> set (ownEntries obj)"
  then have "v \<in> set (map (\<lambda>c. JString [c]) s)" using JString by (auto dest: set_zip_rightD)
  then show ?thesis using JString by auto
qed (auto dest: size_zip_snd size_entry less_imp_le)

section \<open>Key paths: \<^verbatim>\<open>generateKeyTypes\<close>\<close>




section \<open>Named interfaces: \<^verbatim>\<open>generateInterfacesFromJson\<close>\<close>

text \<open>
  \<^verbatim>\<open>extractInterfaces\<close> appends to the array \<^verbatim>\<open>interfaces\<close> of the enclosing call, passed
  in and returned here. \<^verbatim>\<open>Object.keys(value).length\<close> is the number of entries of
  \<^verbatim>\<open>value\<close>.
\<close>

function extractInterfaces ::
  "(string \<Rightarrow> string) \<Rightarrow> JsValue \<Rightarrow> string \<Rightarrow> string list \<Rightarrow> string list" where
  "extractInterfaces pc obj parentName interfaces =
     (if typeof obj \<noteq> ''object'' \<or> obj = JNull then interfaces
      else fold (\<lambda>(key, value) interfaces.
             if typeof value = ''object'' \<and> value \<noteq> JNull \<and> \<not> isArray value
             then
               let interfaceName = pc (parentName @ key);
                   interfaceType = generateTypeFromValue pc value interfaceName 0;
                   interfaces =
                     (if length (ownEntries value) > 3
                      then interfaces @
                           [''export interface '' @ interfaceName @ '' '' @ interfaceType]
                      else interfaces)
               in extractInterfaces pc value interfaceName interfaces
             else interfaces)
           (ownEntries obj) interfaces)"
  by pat_completeness auto
termination
  by (relation "measure (\<lambda>(pc, obj, parentName, interfaces). size obj)")
     (auto dest: ownEntries_size)

declare extractInterfaces.simps [simp del]

definition generateInterfacesFromJson :: "(string \<Rightarrow> string) \<Rightarrow> JsValue \<Rightarrow> string" where
  "generateInterfacesFromJson pc json =
     (let rootType = generateTypeFromValue pc json ''Root'' 0;
          interfaces = [''export interface WidgetData '' @ rootType]
      in join ''\<newline>\<newline>'' (extractInterfaces pc json [] interfaces))"


section \<open>Validation schemas: \<^verbatim>\<open>transformSchema\<close>\<close>

text \<open>
  Reading one of the properties \<^verbatim>\<open>type\<close>, \<^verbatim>\<open>properties\<close>, \<^verbatim>\<open>items\<close>, \<^verbatim>\<open>enum\<close>,
  \<^verbatim>\<open>$ref\<close> from a value that is neither \<^verbatim>\<open>null\<close> nor \<^verbatim>\<open>undefined\<close>: an object
  answers with its own property, everything else (and an object without the property) with
  \<^verbatim>\<open>undefined\<close>, since no prototype defines these five names.
\<close>

fun getProp :: "JsValue \<Rightarrow> string \<Rightarrow> JsValue" where
  "getProp (JObject es) k = (case map_of es k of Some v \<Rightarrow> v | None \<Rightarrow> JUndefined)"
| "getProp _ k = JUndefined"

text \<open>The truth value of a value in a condition.\<close>

fun truthy :: "JsValue \<Rightarrow> bool" where
  "truthy JNull = False"
| "truthy JUndefined = False"
| "truthy (JBool b) = b"
| "truthy (JNumber n) = (n \<noteq> ''0'' \<and> n \<noteq> ''NaN'')"
| "truthy (JString s) = (s \<noteq> [])"
| "truthy (JArray xs) = True"
| "truthy (JObject es) = True"

text \<open>
  \<^verbatim>\<open>Array.prototype.map\<close> with a callback that may throw: the first exception ends the
  traversal.
\<close>

fun mapE :: "('a \<Rightarrow> error + 'b) \<Rightarrow> 'a list \<Rightarrow> error + 'b list" where
  "mapE f [] = Inr []"
| "mapE f (x # xs) =
     (case f x of
        Inl e \<Rightarrow> Inl e
      | Inr y \<Rightarrow> (case mapE f xs of Inl e \<Rightarrow> Inl e | Inr ys \<Rightarrow> Inr (y # ys)))"

lemma mapE_cong [fundef_cong]:
  "xs = ys \<Longrightarrow> (\<And>x. x \<in> set ys \<Longrightarrow> f x = g x) \<Longrightarrow> mapE f xs = mapE g ys"
  by (induction ys arbitrary: xs) (auto split: sum.splits)

text \<open>
  The text of a value inside a template literal. An array prints its elements separated by
  commas, \<^verbatim>\<open>null\<close> and \<^verbatim>\<open>undefined\<close> elements as nothing. An object prints as
  \<^verbatim>\<open>[object Object]\<close> through \<^verbatim>\<open>Object.prototype.toString\<close>; an own property
  \<^verbatim>\<open>toString\<close> hides that method, and since a JSON value is never callable the conversion
  then throws.
\<close>

fun toString :: "JsValue \<Rightarrow> error + string" where
  "toString JNull = Inr ''null''"
| "toString JUndefined = Inr ''undefined''"
| "toString (JBool b) = Inr (if b then ''true'' else ''false'')"
| "toString (JNumber n) = Inr n"
| "toString (JString s) = Inr s"
| "toString (JArray xs) =
     (case mapE (\<lambda>x. if x = JNull \<or> x = JUndefined then Inr [] else toString x) xs of
        Inl e \<Rightarrow> Inl e
      | Inr parts \<Rightarrow> Inr (join '','' parts))"
| "toString (JObject es) =
     (if ''toString'' \<in> set (map fst es) then Inl TypeError else Inr ''[object Object]'')"

text \<open>\<^verbatim>\<open>String.prototype.split\<close> with a separator of one character.\<close>

fun split :: "char \<Rightarrow> string \<Rightarrow> string list" where
  "split sep [] = [[]]"
| "split sep (c # cs) =
     (if c = sep then [] # split sep cs
      else (case split sep cs of w # ws \<Rightarrow> (c # w) # ws | [] \<Rightarrow> [[c]]))"

text \<open>A property that a schema holds is smaller than the schema.\<close>

lemma getProp_size: "getProp schema k' = JString t \<Longrightarrow> size (getProp schema k) < size schema"
proof (cases schema)
  case (JObject es)
  show ?thesis
  proof (cases "map_of es k")
    case None
    then show ?thesis using JObject by simp
  next
    case (Some v)
    then have "(k, v) \<in> set es" by (rule map_of_SomeD)
    then show ?thesis using JObject Some by (auto dest: size_entry)
  qed
qed simp_all

text \<open>
  \<^verbatim>\<open>schema.type\<close> throws when \<^verbatim>\<open>schema\<close> is \<^verbatim>\<open>null\<close> or \<^verbatim>\<open>undefined\<close>;
  \<^verbatim>\<open>schema.enum.map\<close> is a function only on an array and \<^verbatim>\<open>schema['$ref'].split\<close> only
  on a string, and calling what is not a function throws. \<^verbatim>\<open>pop\<close> returns the last
  element of the array that \<^verbatim>\<open>split\<close> returns, which is never empty.
  The parameter \<^verbatim>\<open>openapi\<close> is passed along and never read.
\<close>

function transformSchema :: "JsValue \<Rightarrow> JsValue \<Rightarrow> error + string" where
  "transformSchema schema openapi =
     (if schema = JNull \<or> schema = JUndefined then Inl TypeError
      else if getProp schema ''type'' = JString ''object'' then
        (case Object_entries (getProp schema ''properties'') of
           Inl e \<Rightarrow> Inl e
         | Inr entries \<Rightarrow>
             (case mapE (\<lambda>(key, value).
                      case transformSchema value openapi of
                        Inl e \<Rightarrow> Inl e
                      | Inr t \<Rightarrow> Inr (key @ '': '' @ t)) entries of
                Inl e \<Rightarrow> Inl e
              | Inr properties \<Rightarrow> Inr (''v.object({ '' @ join '', '' properties @ '' })'')))
      else if getProp schema ''type'' = JString ''array'' then
        (case transformSchema (getProp schema ''items'') openapi of
           Inl e \<Rightarrow> Inl e
         | Inr t \<Rightarrow> Inr (''v.array('' @ t @ '')''))
      else if truthy (getProp schema ''enum'') then
        (case getProp schema ''enum'' of
           JArray vs \<Rightarrow>
             (case mapE (\<lambda>v. case toString v of
                               Inl e \<Rightarrow> Inl e
                             | Inr t \<Rightarrow> Inr (''v.literal(\"'' @ t @ ''\")'')) vs of
                Inl e \<Rightarrow> Inl e
              | Inr literals \<Rightarrow> Inr (''v.union(['' @ join '', '' literals @ ''])''))
         | _ \<Rightarrow> Inl TypeError)
      else if getProp schema ''type'' = JString ''string'' then Inr ''v.string()''
      else if getProp schema ''type'' = JString ''number'' \<or> getProp schema ''type'' = JString ''integer''
        then Inr ''v.number()''
      else if getProp schema ''type'' = JString ''boolean'' then Inr ''v.boolean()''
      else if truthy (getProp schema ''$ref'') then
        (case getProp schema ''$ref'' of
           JString ref \<Rightarrow> Inr (last (split CHR ''/'' ref))
         | _ \<Rightarrow> Inl TypeError)
      else Inr ''v.any()'')"
  by pat_completeness auto

termination
proof (relation "measure (\<lambda>(schema, openapi). size schema)")
  show "wf (measure (\<lambda>(schema, openapi). size schema))" by simp
next
  fix schema openapi :: JsValue and entries x key "value"
  assume ty: "getProp schema ''type'' = JString ''object''"
    and en: "Object_entries (getProp schema ''properties'') = Inr entries"
    and x: "x \<in> set entries" "(key, value) = x"
  from en have "entries = ownEntries (getProp schema ''properties'')"
    by (auto simp: Object_entries_def split: if_splits)
  with x have "size value \<le> size (getProp schema ''properties'')"
    by (auto dest: ownEntries_size_le)
  also have "\<dots> < size schema" using ty by (rule getProp_size)
  finally show "((value, openapi), (schema, openapi)) \<in> measure (\<lambda>(schema, openapi). size schema)"
    by simp
next
  fix schema openapi :: JsValue
  assume "getProp schema ''type'' = JString ''array''"
  then have "size (getProp schema ''items'') < size schema" by (rule getProp_size)
  then show "((getProp schema ''items'', openapi), (schema, openapi))
      \<in> measure (\<lambda>(schema, openapi). size schema)"
    by simp
qed

declare transformSchema.simps [simp del]


section \<open>The case conversion of \<^verbatim>\<open>change-case\<close>, on ASCII\<close>

text \<open>
  \<^verbatim>\<open>pascalCase\<close> as the package computes it on ASCII text, used where an example needs a
  concrete conversion. The package puts a NUL between a lower-case letter or digit and an
  upper-case letter that follows it, then between two upper-case letters that a lower-case
  letter follows, replaces every run of characters other than letters and digits by a NUL, and
  splits at the NULs; each word then gets its first letter in upper case and the rest in lower
  case, a word after the first that starts with a digit being prefixed with an underscore.
  Only the ASCII letters count as letters here; a character outside ASCII, which the package
  may take for a letter, separates words in this model, and no statement below applies the
  conversion to such text.
\<close>

fun splitLowerUpper :: "string \<Rightarrow> string" where
  "splitLowerUpper (a # b # cs) =
     (if (a \<in> set lowerCase \<or> a \<in> set digits) \<and> b \<in> set upperCase
      then a # CHR 0x00 # b # splitLowerUpper cs
      else a # splitLowerUpper (b # cs))"
| "splitLowerUpper cs = cs"

fun splitUpperUpper :: "string \<Rightarrow> string" where
  "splitUpperUpper (a # b # c # ds) =
     (if a \<in> set upperCase \<and> b \<in> set upperCase \<and> c \<in> set lowerCase
      then a # CHR 0x00 # b # c # splitUpperUpper ds
      else a # splitUpperUpper (b # c # ds))"
| "splitUpperUpper cs = cs"

fun splitWords :: "string \<Rightarrow> string \<Rightarrow> string list" where
  "splitWords word [] = (if word = [] then [] else [word])"
| "splitWords word (c # cs) =
     (if c \<in> set (lowerCase @ upperCase @ digits) then splitWords (word @ [c]) cs
      else (if word = [] then [] else [word]) @ splitWords [] cs)"

definition toUpperCase :: "char \<Rightarrow> char" where
  "toUpperCase c = (case map_of (zip lowerCase upperCase) c of Some u \<Rightarrow> u | None \<Rightarrow> c)"

definition toLowerCase :: "char \<Rightarrow> char" where
  "toLowerCase c = (case map_of (zip upperCase lowerCase) c of Some l \<Rightarrow> l | None \<Rightarrow> c)"

fun pascalCaseTransform :: "string \<Rightarrow> nat \<Rightarrow> string" where
  "pascalCaseTransform [] index = []"
| "pascalCaseTransform (c # cs) index =
     (if 0 < index \<and> c \<in> set digits then CHR ''_'' # c # map toLowerCase cs
      else toUpperCase c # map toLowerCase cs)"

definition pascalCase :: "string \<Rightarrow> string" where
  "pascalCase input =
     (let ws = splitWords [] (splitUpperUpper (splitLowerUpper input))
      in concat (map (\<lambda>(word, index). pascalCaseTransform word index) (zip ws [0..<length ws])))"

section \<open>What the specification says, as definitions\<close>




text \<open>
  The object-valued fields of a tree with their key paths, in the order of the same walk:
  a field whose value is an object, then the fields inside that object; arrays are not entered.
\<close>

fun objectFields :: "string list \<Rightarrow> JsValue \<Rightarrow> (string list \<times> JsValue) list" where
  "objectFields p (JObject es) =
     concat (map (\<lambda>(k, v). case v of
                     JObject fs \<Rightarrow> (p @ [k], v) # objectFields (p @ [k]) v
                   | _ \<Rightarrow> []) es)"
| "objectFields p _ = []"

text \<open>
  The name under which the object at a key path is declared: empty for the root, and for a
  longer path the conversion of the name of the path before it followed by the last key.
\<close>

definition interfaceName :: "(string \<Rightarrow> string) \<Rightarrow> string list \<Rightarrow> string" where
  "interfaceName pc p = foldl (\<lambda>name key. pc (name @ key)) [] p"

definition interfaceDecl :: "(string \<Rightarrow> string) \<Rightarrow> string list \<times> JsValue \<Rightarrow> string" where
  "interfaceDecl pc f =
     ''export interface '' @ interfaceName pc (fst f) @ '' '' @
     generateTypeFromValue pc (snd f) (interfaceName pc (fst f)) 0"

text \<open>A key that needs no quotes: a letter, underscore or dollar, then letters, digits,
  underscores and dollars.\<close>

definition isIdentifier :: "string \<Rightarrow> bool" where
  "isIdentifier key =
     (case key of
        [] \<Rightarrow> False
      | c # cs \<Rightarrow> c \<in> set (lowerCase @ upperCase @ ''_$'') \<and>
                 list_all (\<lambda>c. c \<in> set (lowerCase @ upperCase @ digits @ ''_$'')) cs)"

text \<open>The last path segment of a reference target: what follows its last slash.\<close>

definition lastSegment :: "string \<Rightarrow> string" where
  "lastSegment target = rev (takeWhile (\<lambda>c. c \<noteq> CHR ''/'') (rev target))"

text \<open>Validator expressions, and the text of one.\<close>

datatype validator = Literal string | Union "validator list"

fun emit :: "validator \<Rightarrow> string" where
  "emit (Literal s) = ''v.literal(\"'' @ s @ ''\")''"
| "emit (Union vs) = ''v.union(['' @ join '', '' (map emit vs) @ ''])''"

text \<open>
  How the text of a union of literals reads as TypeScript. A string literal without escapes
  runs from its opening double quote to the next double quote, and holds no backslash and no
  line break; \<open>readUnion\<close> gives the strings of the literals of a call
  \<^verbatim>\<open>v.union([v.literal("..."), ...])\<close> written with the spacing of the generator, and
  nothing for any other text.
\<close>

fun stripPrefix :: "string \<Rightarrow> string \<Rightarrow> string option" where
  "stripPrefix [] s = Some s"
| "stripPrefix (p # ps) [] = None"
| "stripPrefix (p # ps) (c # cs) = (if p = c then stripPrefix ps cs else None)"

fun readString :: "string \<Rightarrow> (string \<times> string) option" where
  "readString [] = None"
| "readString (c # cs) =
     (if c = CHR 0x22 then Some ([], cs)
      else if c \<in> set [CHR 0x5C, CHR 0x0A, CHR 0x0D] then None
      else (case readString cs of None \<Rightarrow> None | Some (t, rest) \<Rightarrow> Some (c # t, rest)))"

definition readLiteral :: "string \<Rightarrow> (string \<times> string) option" where
  "readLiteral s =
     (case stripPrefix ''v.literal(\"'' s of
        None \<Rightarrow> None
      | Some r \<Rightarrow>
          (case readString r of
             None \<Rightarrow> None
           | Some (t, r') \<Rightarrow>
               (case stripPrefix '')'' r' of None \<Rightarrow> None | Some r'' \<Rightarrow> Some (t, r''))))"

lemma stripPrefix_length: "stripPrefix p s = Some r \<Longrightarrow> length r \<le> length s"
  by (induction p s rule: stripPrefix.induct) (auto split: if_splits)

lemma readString_length: "readString s = Some (t, r) \<Longrightarrow> length r < length s"
  by (induction s arbitrary: t) (auto split: if_splits option.splits)

lemma readLiteral_length: "readLiteral s = Some (t, r) \<Longrightarrow> length r < length s"
  by (auto simp: readLiteral_def split: option.splits
        dest!: stripPrefix_length readString_length)

function readLiterals :: "string \<Rightarrow> (string list \<times> string) option" where
  "readLiterals s =
     (case readLiteral s of
        None \<Rightarrow> None
      | Some (t, r) \<Rightarrow>
          (case stripPrefix '', '' r of
             None \<Rightarrow> Some ([t], r)
           | Some r' \<Rightarrow>
               (case readLiterals r' of
                  None \<Rightarrow> None
                | Some (ts, r'') \<Rightarrow> Some (t # ts, r''))))"
  by pat_completeness auto
termination
  by (relation "measure length")
     (auto dest!: readLiteral_length stripPrefix_length)

declare readLiterals.simps [simp del]

definition readUnion :: "string \<Rightarrow> string list option" where
  "readUnion s =
     (case stripPrefix ''v.union(['' s of
        None \<Rightarrow> None
      | Some r \<Rightarrow>
          if r = ''])'' then Some []
          else (case readLiterals r of
                  None \<Rightarrow> None
                | Some (ts, r') \<Rightarrow> if r' = ''])'' then Some ts else None))"

text \<open>A text that can stand between double quotes as it is.\<close>

definition plainText :: "string \<Rightarrow> bool" where
  "plainText t = list_all (\<lambda>c. c \<notin> set [CHR 0x22, CHR 0x5C, CHR 0x0A, CHR 0x0D]) t"

section \<open>Properties of type inference\<close>

text \<open>The name and the depth passed along, and the case conversion, never reach the text.\<close>

lemma generateTypeFromValue_indep:
  "generateTypeFromValue pc v name depth = generateTypeFromValue pc' v name' depth'"
proof (induction pc v name depth arbitrary: pc' name' depth' rule: generateTypeFromValue.induct)
  case (7 pc x xs name depth)
  then show ?case by simp
next
  case (8 pc es name depth)
  let ?line = "\<lambda>pc depth (key, val).
          let propName = (if regexTest identifierPattern key then key else ''\"'' @ key @ ''\"'');
              propType = generateTypeFromValue pc val (pc key) (depth + 1)
          in ''  '' @ propName @ '': '' @ propType @ '';''"
  have "map (?line pc depth) es = map (?line pc' depth') es"
  proof (rule map_cong[OF refl])
    fix e assume e: "e \<in> set es"
    obtain k v where kv: "e = (k, v)" by (cases e)
    have "generateTypeFromValue pc v (pc k) (depth + 1)
        = generateTypeFromValue pc' v (pc' k) (depth' + 1)"
      by (rule "8.IH"[OF e kv[symmetric] refl])
    then show "?line pc depth e = ?line pc' depth' e" by (simp add: kv)
  qed
  then show ?case by (simp only: generateTypeFromValue.simps)
qed simp_all

lemma regexTest_Star: "regexTest [Star cls] s = list_all (\<lambda>c. c \<in> set cls) s"
  by (induction s) auto

lemma regexTest_identifier: "regexTest identifierPattern key = isIdentifier key"
  by (cases key) (simp_all add: identifierPattern_def isIdentifier_def regexTest_Star)

text \<open>
  C5: for a non-empty array the element type is inferred from the first element alone. The
  text is that of the first element followed by \<^verbatim>\<open>[]\<close>, it is the same whatever elements
  follow, and an array that starts with a string and goes on with a number is \<^verbatim>\<open>string[]\<close>.
\<close>

theorem first_element_wins:
  "generateTypeFromValue pc (JArray (x # xs)) name depth
     = generateTypeFromValue pc x name depth @ ''[]''
   \<and> generateTypeFromValue pc (JArray (x # xs)) name depth
     = generateTypeFromValue pc (JArray (x # ys)) name depth
   \<and> generateTypeFromValue pc (JArray (JString s # JNumber n # xs)) name depth = ''string[]''"
  using generateTypeFromValue_indep[of pc x "name @ ''Element''" "depth + 1" pc name depth]
  by simp

text \<open>
  C6: the type text of an empty array is exactly \<^verbatim>\<open>any[]\<close>, whatever name and depth it is
  reached with, as the first element of another array and as the value of a field.
\<close>

theorem empty_array_any:
  "generateTypeFromValue pc (JArray []) name depth = ''any[]''
   \<and> generateTypeFromValue pc (JArray (JArray [] # xs)) name depth = ''any[][]''
   \<and> generateTypeFromValue pc (JObject [(''k'', JArray [])]) name depth
       = ''{\<newline>  k: any[];\<newline>}''"
  by (simp add: identifierPattern_def lowerCase_def)

text \<open>
  C9, as amended: an undefined value is not rejected; its type text is \<^verbatim>\<open>undefined\<close>.
\<close>

theorem undefined_is_a_type:
  "generateTypeFromValue pc JUndefined name depth = ''undefined''"
  by simp

text \<open>
  C9 as stated says that inference fails on an undefined value. The source returns the text
  \<^verbatim>\<open>undefined\<close> for it.
\<close>

theorem undefined_counterexample:
  "generateTypeFromValue pascalCase JUndefined ''Root'' 0 = ''undefined''"
  by simp

text \<open>
  C10: in the text of an object, the name of a field is the key itself exactly when the key is
  a letter, underscore or dollar followed by letters, digits, underscores and dollars, and the
  key between double quotes otherwise. The value of the field is rendered by the same function,
  so the same holds for the objects inside.
\<close>

theorem property_names:
  "generateTypeFromValue pc (JObject es) name depth =
     ''{\<newline>'' @
     join ''\<newline>''
       (map (\<lambda>(key, val).
          ''  '' @ (if isIdentifier key then key else ''\"'' @ key @ ''\"'') @ '': '' @
          generateTypeFromValue pc val (pc key) (depth + 1) @ '';'') es) @
     ''\<newline>}''"
  by (simp add: regexTest_identifier)

text \<open>Keys that are identifiers, a key that starts with a digit, a key with a hyphen and the
  empty key, at two depths.\<close>

theorem property_names_witness:
  "generateTypeFromValue pascalCase
     (JObject [(''$ok_1'', JNull), (''1st'', JObject [(''a-b'', JBool True), ('''', JNull)])]) ''Root'' 0
   = ''{\<newline>  $ok_1: null;\<newline>  \"1st\": {\<newline>  \"a-b\": boolean;\<newline>  \"\": null;\<newline>};\<newline>}''"
  using property_names[of pascalCase "[(''$ok_1'', JNull), (''1st'', JObject [(''a-b'', JBool True), ('''', JNull)])]" "''Root''" 0]
    property_names[of pascalCase "[(''a-b'', JBool True), ('''', JNull)]" "''Root''" 0]
  by (simp add: isIdentifier_def lowerCase_def upperCase_def digits_def)

section \<open>Properties of the key paths\<close>

lemma fold_append_concat:
  "(\<And>x acc. x \<in> set xs \<Longrightarrow> f x acc = acc @ g x) \<Longrightarrow> fold f xs acc = acc @ concat (map g xs)"
  by (induction xs arbitrary: acc) simp_all










section \<open>Properties of the named interfaces\<close>

lemma concat_map_filter:
  "concat (map (\<lambda>e. map D (filter big (h e))) es) = map D (filter big (concat (map h es)))"
  by (induction es) simp_all

lemma extractInterfaces_JObject:
  "extractInterfaces pc (JObject es) parentName interfaces =
     fold (\<lambda>(key, value) interfaces.
             if typeof value = ''object'' \<and> value \<noteq> JNull \<and> \<not> isArray value
             then
               let interfaceName = pc (parentName @ key);
                   interfaceType = generateTypeFromValue pc value interfaceName 0;
                   interfaces =
                     (if length (ownEntries value) > 3
                      then interfaces @
                           [''export interface '' @ interfaceName @ '' '' @ interfaceType]
                      else interfaces)
               in extractInterfaces pc value interfaceName interfaces
             else interfaces) es interfaces"
  by (subst extractInterfaces.simps) simp

lemma interfaceName_snoc: "interfaceName pc (p @ [k]) = pc (interfaceName pc p @ k)"
  by (simp add: interfaceName_def)

lemma extractInterfaces_fields:
  "\<not> isArray obj \<Longrightarrow>
   extractInterfaces pc obj (interfaceName pc p) interfaces =
     interfaces @
     map (interfaceDecl pc) (filter (\<lambda>f. 3 < length (ownEntries (snd f))) (objectFields p obj))"
proof (induction obj arbitrary: p interfaces rule: measure_induct_rule[where f = size])
  case (less obj)
  show ?case
  proof (cases obj)
    case (JObject es)
    let ?big = "\<lambda>f. 3 < length (ownEntries (snd f))"
    let ?f = "\<lambda>(key, value) interfaces.
             if typeof value = ''object'' \<and> value \<noteq> JNull \<and> \<not> isArray value
             then
               let interfaceName = pc (interfaceName pc p @ key);
                   interfaceType = generateTypeFromValue pc value interfaceName 0;
                   interfaces =
                     (if length (ownEntries value) > 3
                      then interfaces @
                           [''export interface '' @ interfaceName @ '' '' @ interfaceType]
                      else interfaces)
               in extractInterfaces pc value interfaceName interfaces
             else interfaces"
    let ?h = "\<lambda>(k, v). case v of
                     JObject fs \<Rightarrow> (p @ [k], v) # objectFields (p @ [k]) v
                   | _ \<Rightarrow> []"
    let ?g = "\<lambda>e. map (interfaceDecl pc) (filter ?big (?h e))"
    have step: "?f e acc = acc @ ?g e" if e: "e \<in> set es" for e acc
    proof -
      obtain k v where kv: "e = (k, v)" by (cases e)
      show ?thesis
      proof (cases "\<exists>fs. v = JObject fs")
        case True
        then obtain fs where fs: "v = JObject fs" ..
        have "size v < size obj" using e kv JObject by (auto dest: size_entry)
        moreover have "\<not> isArray v" using fs by simp
        ultimately have "extractInterfaces pc v (interfaceName pc (p @ [k])) acc' =
            acc' @ map (interfaceDecl pc) (filter ?big (objectFields (p @ [k]) v))" for acc'
          by (rule less.IH)
        then show ?thesis
          by (simp add: kv fs Let_def interfaceName_snoc[of pc p k] interfaceDecl_def
                del: objectFields.simps)
      next
        case False
        then show ?thesis by (cases v) (simp_all add: kv)
      qed
    qed
    have "extractInterfaces pc obj (interfaceName pc p) interfaces = fold ?f es interfaces"
      unfolding JObject by (rule extractInterfaces_JObject)
    also have "\<dots> = interfaces @ concat (map ?g es)"
      by (rule fold_append_concat) (rule step)
    also have "concat (map ?g es) = map (interfaceDecl pc) (filter ?big (objectFields p obj))"
      unfolding JObject by (simp only: objectFields.simps concat_map_filter)
    finally show ?thesis .
  next
    case (JArray xs)
    then show ?thesis using less.prems by simp
  qed (simp_all add: extractInterfaces.simps)
qed

text \<open>
  C2: the declarations that \<^verbatim>\<open>extractInterfaces\<close> appends are those of the object-valued
  fields reached through objects only, in the order of the walk, a field being declared if and
  only if its object has more than three keys.
\<close>

theorem promotion_threshold:
  "\<not> isArray json \<Longrightarrow>
   extractInterfaces pc json [] interfaces =
     interfaces @
     map (interfaceDecl pc) (filter (\<lambda>f. 3 < length (ownEntries (snd f))) (objectFields [] json))"
  using extractInterfaces_fields[of json pc "[]" interfaces] by (simp add: interfaceName_def)

text \<open>An object of four keys is declared; one of three keys is not, nor is one inside an
  array.\<close>

theorem promotion_threshold_witness:
  "\<not> isArray (JObject [(''widget'', JObject
        [(''window'', JObject [(''title'', JString ''X''), (''width'', JNumber ''1''),
                               (''height'', JNumber ''2''), (''resizable'', JBool True)]),
         (''image'', JObject [(''src'', JString ''a.png''), (''hOffset'', JNumber ''250''),
                              (''vOffset'', JNumber ''250'')]),
         (''tags'', JArray [JObject [(''a'', JNull), (''b'', JNull), (''c'', JNull),
                                      (''d'', JNull)]])])])
   \<and> extractInterfaces pascalCase (JObject [(''widget'', JObject
        [(''window'', JObject [(''title'', JString ''X''), (''width'', JNumber ''1''),
                               (''height'', JNumber ''2''), (''resizable'', JBool True)]),
         (''image'', JObject [(''src'', JString ''a.png''), (''hOffset'', JNumber ''250''),
                              (''vOffset'', JNumber ''250'')]),
         (''tags'', JArray [JObject [(''a'', JNull), (''b'', JNull), (''c'', JNull),
                                      (''d'', JNull)]])])]) [] []
     = [interfaceDecl pascalCase ([''widget'', ''window''],
          JObject [(''title'', JString ''X''), (''width'', JNumber ''1''),
                   (''height'', JNumber ''2''), (''resizable'', JBool True)])]"
  using promotion_threshold[of "JObject [(''widget'', JObject
        [(''window'', JObject [(''title'', JString ''X''), (''width'', JNumber ''1''),
                               (''height'', JNumber ''2''), (''resizable'', JBool True)]),
         (''image'', JObject [(''src'', JString ''a.png''), (''hOffset'', JNumber ''250''),
                              (''vOffset'', JNumber ''250'')]),
         (''tags'', JArray [JObject [(''a'', JNull), (''b'', JNull), (''c'', JNull),
                                      (''d'', JNull)]])])]" pascalCase "[]"]
  by simp

text \<open>
  C3, as amended: the declarations are exactly those of the promoted fields, each under the
  name obtained by going down its key path from the empty name, at every key converting the
  name so far followed by that key.
\<close>

theorem interface_names:
  "\<not> isArray json \<Longrightarrow>
   (d \<in> set (extractInterfaces pc json [] [])) =
     (\<exists>f \<in> set (objectFields [] json). 3 < length (ownEntries (snd f)) \<and>
        d = ''export interface '' @ foldl (\<lambda>name key. pc (name @ key)) [] (fst f) @ '' '' @
            generateTypeFromValue pc (snd f) (foldl (\<lambda>name key. pc (name @ key)) [] (fst f)) 0)"
  using extractInterfaces_fields[of json pc "[]" "[]"]
  by (auto simp: interfaceName_def interfaceDecl_def simp del: objectFields.simps)

lemmas pascalCase_eval = pascalCase_def lowerCase_def upperCase_def digits_def toUpperCase_def toLowerCase_def

text \<open>With the conversion of \<^verbatim>\<open>change-case\<close>, the object at \<^verbatim>\<open>widget.window\<close> is declared as
  \<^verbatim>\<open>Widgetwindow\<close>.\<close>

theorem interface_names_witness:
  "\<not> isArray (JObject [(''widget'', JObject [(''window'',
        JObject [(''title'', JString ''X''), (''width'', JNumber ''1''),
                 (''height'', JNumber ''2''), (''resizable'', JBool True)])])])
   \<and> ''export interface Widgetwindow {\<newline>  title: string;\<newline>  width: number;\<newline>  height: number;\<newline>  resizable: boolean;\<newline>}''
       \<in> set (extractInterfaces pascalCase
           (JObject [(''widget'', JObject [(''window'',
              JObject [(''title'', JString ''X''), (''width'', JNumber ''1''),
                       (''height'', JNumber ''2''), (''resizable'', JBool True)])])]) [] [])"
  using interface_names[of "JObject [(''widget'', JObject [(''window'',
        JObject [(''title'', JString ''X''), (''width'', JNumber ''1''),
                 (''height'', JNumber ''2''), (''resizable'', JBool True)])])]"
     "''export interface Widgetwindow {\<newline>  title: string;\<newline>  width: number;\<newline>  height: number;\<newline>  resizable: boolean;\<newline>}''"
     pascalCase]
  by (simp add: pascalCase_eval identifierPattern_def)

text \<open>
  C3 as stated names the object at \<^verbatim>\<open>widget.window\<close> by the converted segments put
  together, \<^verbatim>\<open>WidgetWindow\<close>. The source converts \<^verbatim>\<open>Widgetwindow\<close>, the parent's name
  followed by the key, which is one word.
\<close>

theorem interface_name_counterexample:
  "extractInterfaces pascalCase
     (JObject [(''widget'', JObject [(''window'',
        JObject [(''title'', JString ''X''), (''width'', JNumber ''1''),
                 (''height'', JNumber ''2''), (''resizable'', JBool True)])])]) [] []
   = [''export interface Widgetwindow {\<newline>  title: string;\<newline>  width: number;\<newline>  height: number;\<newline>  resizable: boolean;\<newline>}'']
   \<and> concat (map pascalCase [''widget'', ''window'']) = ''WidgetWindow''"
  by (simp add: extractInterfaces.simps pascalCase_eval identifierPattern_def)

section \<open>Properties of the schema transformer\<close>

lemma mapE_literals:
  "mapE toString vs = Inr texts \<Longrightarrow>
   mapE (\<lambda>v. case toString v of Inl e \<Rightarrow> Inl e | Inr t \<Rightarrow> Inr (''v.literal(\"'' @ t @ ''\")'')) vs
     = Inr (map (emit \<circ> Literal) texts)"
proof (induction vs arbitrary: texts)
  case Nil
  then show ?case by simp
next
  case (Cons v vs)
  from Cons.prems obtain t ts where t: "toString v = Inr t" and ts: "mapE toString vs = Inr ts"
      and texts: "texts = t # ts"
    by (auto split: sum.splits)
  show ?case using Cons.IH[OF ts] t by (simp add: texts)
qed

lemma split_nonempty: "split sep s \<noteq> []"
  by (induction s) (auto split: list.splits)

lemma split_no_sep: "sep \<notin> set s \<Longrightarrow> split sep s = [s]"
  by (induction s) auto

lemma split_sep_two: "sep \<in> set s \<Longrightarrow> \<exists>w v ws. split sep s = w # v # ws"
proof (induction s)
  case Nil
  then show ?case by simp
next
  case (Cons c cs)
  show ?case
  proof (cases "c = sep")
    case True
    then show ?thesis using split_nonempty[of sep cs] by (cases "split sep cs") auto
  next
    case False
    then have "sep \<in> set cs" using Cons.prems by simp
    then obtain w v ws where "split sep cs = w # v # ws" using Cons.IH by blast
    then show ?thesis using False by simp
  qed
qed

lemma last_split: "last (split sep s) = rev (takeWhile (\<lambda>c. c \<noteq> sep) (rev s))"
proof (induction s)
  case Nil
  then show ?case by simp
next
  case (Cons c cs)
  show ?case
  proof (cases "sep \<in> set cs")
    case True
    then obtain w v ws where sp: "split sep cs = w # v # ws" using split_sep_two by blast
    have "last (split sep (c # cs)) = last (split sep cs)" using sp by simp
    moreover have "takeWhile (\<lambda>c. c \<noteq> sep) (rev cs @ [c]) = takeWhile (\<lambda>c. c \<noteq> sep) (rev cs)"
      using True by (intro takeWhile_append1[where x = sep]) auto
    ultimately show ?thesis using Cons.IH by simp
  next
    case False
    then have sp: "split sep cs = [cs]" by (rule split_no_sep)
    have tw: "takeWhile (\<lambda>c. c \<noteq> sep) (rev cs @ [c]) = rev cs @ takeWhile (\<lambda>c. c \<noteq> sep) [c]"
      using False by (intro takeWhile_append2) auto
    show ?thesis using sp tw by simp
  qed
qed

text \<open>
  C4: a schema node that is none of the recognised shapes (its \<^verbatim>\<open>type\<close> is none of
  \<^verbatim>\<open>object\<close>, \<^verbatim>\<open>array\<close>, \<^verbatim>\<open>string\<close>, \<^verbatim>\<open>number\<close>, \<^verbatim>\<open>integer\<close>, \<^verbatim>\<open>boolean\<close>, and it
  has no \<^verbatim>\<open>enum\<close> and no \<^verbatim>\<open>$ref\<close> that counts as true) is transformed to
  \<^verbatim>\<open>v.any()\<close>, and no exception is thrown.
\<close>

theorem unrecognised_shape_any:
  assumes "schema \<noteq> JNull" and "schema \<noteq> JUndefined"
    and "\<forall>t \<in> set [''object'', ''array'', ''string'', ''number'', ''integer'', ''boolean''].
           getProp schema ''type'' \<noteq> JString t"
    and "\<not> truthy (getProp schema ''enum'')"
    and "\<not> truthy (getProp schema ''$ref'')"
  shows "transformSchema schema openapi = Inr ''v.any()''"
  using assms by (subst transformSchema.simps) simp

theorem unrecognised_shape_any_witness:
  "transformSchema (JObject [(''type'', JString ''null''), (''enum'', JNull),
                             (''oneOf'', JArray [JObject [(''type'', JString ''string'')]])]) JNull
     = Inr ''v.any()''
   \<and> transformSchema (JBool True) JNull = Inr ''v.any()''"
  using unrecognised_shape_any[of "JObject [(''type'', JString ''null''), (''enum'', JNull),
                             (''oneOf'', JArray [JObject [(''type'', JString ''string'')]])]" JNull]
    unrecognised_shape_any[of "JBool True" JNull]
  by simp

text \<open>
  C7: a reference node, one that no earlier rule takes and whose \<^verbatim>\<open>$ref\<close> is a non-empty
  string, is transformed to what follows the last slash of the target, whatever the document
  holds under that name.
\<close>

theorem ref_bare_identifier:
  assumes "\<forall>t \<in> set [''object'', ''array'', ''string'', ''number'', ''integer'', ''boolean''].
           getProp schema ''type'' \<noteq> JString t"
    and "\<not> truthy (getProp schema ''enum'')"
    and "getProp schema ''$ref'' = JString target" and "target \<noteq> []"
  shows "transformSchema schema openapi = Inr (lastSegment target)"
proof -
  have "schema \<noteq> JNull" "schema \<noteq> JUndefined" using assms(3) by auto
  then show ?thesis
    using assms by (subst transformSchema.simps) (simp add: last_split lastSegment_def)
qed

theorem ref_bare_identifier_witness:
  "transformSchema (JObject [(''$ref'', JString ''#/components/schemas/Status'')])
     (JObject [(''components'', JObject [(''schemas'', JObject [(''Status'',
        JObject [(''type'', JString ''string''),
                 (''enum'', JArray [JString ''active'', JString ''inactive''])])])])])
   = Inr ''Status''"
  using ref_bare_identifier[of "JObject [(''$ref'', JString ''#/components/schemas/Status'')]"
     "''#/components/schemas/Status''"
     "JObject [(''components'', JObject [(''schemas'', JObject [(''Status'',
        JObject [(''type'', JString ''string''),
                 (''enum'', JArray [JString ''active'', JString ''inactive''])])])])]"]
  by (simp add: lastSegment_def)

text \<open>The text of a union of plain literals reads back as those literals.\<close>

lemma stripPrefix_append: "stripPrefix p (p @ s) = Some s"
  by (induction p) simp_all

lemma readString_plain: "plainText t \<Longrightarrow> readString (t @ CHR 0x22 # rest) = Some (t, rest)"
  by (induction t) (auto simp: plainText_def)

lemma readLiteral_emit: "plainText t \<Longrightarrow> readLiteral (emit (Literal t) @ rest) = Some (t, rest)"
proof -
  assume t: "plainText t"
  have a: "stripPrefix ''v.literal(\"'' (emit (Literal t) @ rest)
      = Some (t @ CHR 0x22 # ('')'' @ rest))"
    by simp
  have b: "readString (t @ CHR 0x22 # ('')'' @ rest)) = Some (t, '')'' @ rest)"
    using t by (rule readString_plain)
  have c: "stripPrefix '')'' ('')'' @ rest) = Some rest"
    by (rule stripPrefix_append)
  show ?thesis
    unfolding readLiteral_def by (simp only: a b c option.case prod.case)
qed

lemma readLiterals_emit:
  "list_all plainText (t # ts) \<Longrightarrow>
   readLiterals (join '', '' (map (emit \<circ> Literal) (t # ts)) @ ''])'') = Some (t # ts, ''])'')"
proof (induction ts arbitrary: t)
  case Nil
  then have "readLiteral (emit (Literal t) @ ''])'') = Some (t, ''])'')"
    by (intro readLiteral_emit) simp
  then show ?case by (subst readLiterals.simps) (simp del: emit.simps)
next
  case (Cons u us)
  have "readLiteral (emit (Literal t) @ ('', '' @ join '', '' (map (emit \<circ> Literal) (u # us)) @ ''])''))
      = Some (t, '', '' @ join '', '' (map (emit \<circ> Literal) (u # us)) @ ''])'')"
    using Cons.prems by (intro readLiteral_emit) simp
  moreover have "readLiterals (join '', '' (map (emit \<circ> Literal) (u # us)) @ ''])'')
      = Some (u # us, ''])'')"
    using Cons.prems by (intro Cons.IH) simp
  ultimately show ?case
    by (subst readLiterals.simps) (simp del: emit.simps)
qed

lemma readUnion_emit:
  "list_all plainText texts \<Longrightarrow> readUnion (emit (Union (map Literal texts))) = Some texts"
proof (cases texts)
  case Nil
  then show ?thesis by (simp add: readUnion_def)
next
  case (Cons t ts)
  let ?body = "join '', '' (map (emit \<circ> Literal) (t # ts)) @ ''])''"
  assume "list_all plainText texts"
  then have r: "readLiterals ?body = Some (t # ts, ''])'')"
    unfolding Cons by (rule readLiterals_emit)
  have ne: "(?body = ''])'') = False"
    by (cases ts) simp_all
  have e: "emit (Union (map Literal (t # ts))) = ''v.union(['' @ ?body"
    by simp
  show ?thesis
    unfolding Cons readUnion_def e
    by (simp only: stripPrefix_append option.case prod.case r ne if_False if_True simp_thms)
qed

text \<open>
  C8, as amended: an enum node, one whose \<^verbatim>\<open>type\<close> is neither \<^verbatim>\<open>object\<close> nor \<^verbatim>\<open>array\<close>
  and whose \<^verbatim>\<open>enum\<close> is an array of values whose texts hold no double quote, backslash or
  line break, is transformed to the text of a union that reads as exactly one literal per
  value, in the order of the values, each literal holding the text of its value.
\<close>

theorem enum_union_of_literals:
  assumes "getProp schema ''type'' \<noteq> JString ''object''"
    and "getProp schema ''type'' \<noteq> JString ''array''"
    and "getProp schema ''enum'' = JArray vs"
    and "mapE toString vs = Inr texts"
    and "list_all plainText texts"
  shows "\<exists>out. transformSchema schema openapi = Inr out
           \<and> out = emit (Union (map Literal texts))
           \<and> readUnion out = Some texts"
proof -
  have "schema \<noteq> JNull" "schema \<noteq> JUndefined" using assms(3) by auto
  then have "transformSchema schema openapi = Inr (emit (Union (map Literal texts)))"
    using assms(1-3) mapE_literals[OF assms(4)] by (subst transformSchema.simps) simp
  then show ?thesis using readUnion_emit[OF assms(5)] by simp
qed

text \<open>The values \<^verbatim>\<open>["active","inactive"]\<close> give the union of the two literals, in that
  order.\<close>

theorem enum_union_of_literals_witness:
  "mapE toString [JString ''active'', JString ''inactive''] = Inr [''active'', ''inactive'']
   \<and> list_all plainText [''active'', ''inactive'']
   \<and> transformSchema (JObject [(''type'', JString ''string''),
                             (''enum'', JArray [JString ''active'', JString ''inactive''])]) JNull
     = Inr ''v.union([v.literal(\"active\"), v.literal(\"inactive\")])''
   \<and> readUnion ''v.union([v.literal(\"active\"), v.literal(\"inactive\")])''
     = Some [''active'', ''inactive'']"
  using enum_union_of_literals[of "JObject [(''type'', JString ''string''),
                             (''enum'', JArray [JString ''active'', JString ''inactive''])]"
      "[JString ''active'', JString ''inactive'']" "[''active'', ''inactive'']" JNull]
  by (simp add: plainText_def)

text \<open>
  C8 as stated covers every enum node. The text of a value is copied between the double
  quotes as it is: the single value \<^verbatim>\<open>a"), v.literal("b\<close> gives the text of a union of two
  literals.
\<close>

theorem enum_quote_counterexample:
  "transformSchema (JObject [(''enum'', JArray [JString ''a\"), v.literal(\"b''])]) JNull
     = Inr ''v.union([v.literal(\"a\"), v.literal(\"b\")])''
   \<and> readUnion ''v.union([v.literal(\"a\"), v.literal(\"b\")])'' = Some [''a'', ''b'']"
  by (simp add: transformSchema.simps readUnion_def readLiterals.simps readLiteral_def)

end
